theory Spec2Isabelle
  imports Complex_Main "HOL-Library.Sublist"
begin

section \<open>GitHub code analyser: a model of \<^verbatim>\<open>assignment_2/github_analyser.py\<close>\<close>

text \<open>
  The program is a Streamlit page. Pressing the "Analyze Code" button builds a search
  string from a free-text query and six optional filter widgets, sends it to the GitHub
  code-search API, fetches the raw text of the first three hits and asks a chat model to
  comment on each. The model below keeps the source's names. Everything the program does
  to the outside world (HTTP requests, model invocations, messages drawn on the page) is
  recorded as a list of events, in program order; what the outside world answers is a
  parameter. An element of a \<^typ>\<open>string\<close> stands for one character of a Python \<^verbatim>\<open>str\<close>.
\<close>

subsection \<open>Python strings\<close>

text \<open>\<^verbatim>\<open>str(n)\<close> and \<^verbatim>\<open>f"{n}"\<close> for an integer: decimal digits, a minus sign when negative.\<close>

definition digit_char :: "nat \<Rightarrow> char" where
  "digit_char d = ''0123456789'' ! d"

fun str_nat :: "nat \<Rightarrow> string" where
  "str_nat n = (if n < 10 then [digit_char n] else str_nat (n div 10) @ [digit_char (n mod 10)])"

declare str_nat.simps [simp del]

definition str_int :: "int \<Rightarrow> string" where
  "str_int i = (if i < 0 then CHR ''-'' # str_nat (nat (- i)) else str_nat (nat i))"

text \<open>\<^verbatim>\<open>sep.join(xs)\<close>.\<close>

fun join :: "string \<Rightarrow> string list \<Rightarrow> string" where
  "join sep [] = []"
| "join sep [x] = x"
| "join sep (x # y # ys) = x @ sep @ join sep (y # ys)"

text \<open>
  \<^verbatim>\<open>s.replace(old, new)\<close>: every non-overlapping occurrence of \<open>old\<close>, found scanning from
  the left, is replaced. With an empty \<open>old\<close> Python puts \<open>new\<close> before every character and
  at the end.
\<close>

function replace :: "string \<Rightarrow> string \<Rightarrow> string \<Rightarrow> string" where
  "replace old new [] = (if old = [] then new else [])"
| "replace old new (c # cs) =
     (if old = [] then new @ c # replace old new cs
      else if prefix old (c # cs) then new @ replace old new (drop (length old) (c # cs))
      else c # replace old new cs)"
  by pat_completeness auto
termination
  by (relation "measure (\<lambda>(old, new, s). length s)") auto

text \<open>Left padding with zeros to a width, as the \<^verbatim>\<open>%Y\<close>, \<^verbatim>\<open>%m\<close> and \<^verbatim>\<open>%d\<close> fields of \<^verbatim>\<open>strftime\<close> do.\<close>

definition zfill :: "nat \<Rightarrow> string \<Rightarrow> string" where
  "zfill w s = replicate (w - length s) (CHR ''0'') @ s"

text \<open>
  A \<^verbatim>\<open>datetime.date\<close>, and \<^verbatim>\<open>d.strftime('%Y-%m-%d')\<close>. The year is padded to four digits
  here; C libraries differ on years below 1000, which the date widget of the page does not
  offer.
\<close>

record date =
  year :: nat
  month :: nat
  day :: nat

definition strftime_Ymd :: "date \<Rightarrow> string" where
  "strftime_Ymd d =
     zfill 4 (str_nat (year d)) @ ''-'' @ zfill 2 (str_nat (month d)) @ ''-'' @ zfill 2 (str_nat (day d))"

subsection \<open>Exceptions\<close>

datatype exn =
    KeyError string
  | RequestException string

subsection \<open>Session state set up by \<^verbatim>\<open>init\<close>\<close>

text \<open>The six prompt presets, character for character (lines 34 to 95).\<close>

definition doc_basic :: string where
  \<open>doc_basic =
     ''Generate comprehensive documentation for this code.''\<close>

definition doc_detailed :: string where
  \<open>doc_detailed =
     ''Generate comprehensive documentation for this code. \<newline>'' @
     ''                    Include: \<newline>'' @
     ''                    1. Purpose and functionality\<newline>'' @
     ''                    2. Key functions/classes\<newline>'' @
     ''                    3. Input/output specifications\<newline>'' @
     ''                    4. Usage examples''\<close>

definition doc_advanced :: string where
  \<open>doc_advanced =
     ''As an expert developer and technical writer, generate thorough documentation for this code.\<newline>'' @
     ''                    Include:\<newline>'' @
     ''                    1. Executive summary of purpose and functionality\<newline>'' @
     ''                    2. Detailed breakdown of architecture and design patterns\<newline>'' @
     ''                    3. Complete API reference for all functions/classes/methods\<newline>'' @
     ''                    4. Input/output specifications with data types and constraints\<newline>'' @
     ''                    5. Error handling approach and edge cases\<newline>'' @
     ''                    6. Usage examples with expected outputs\<newline>'' @
     ''                    7. Dependencies and requirements\<newline>'' @
     ''                    8. Potential optimization opportunities\<newline>'' @
     ''                    ''\<close>

definition ai_basic :: string where
  \<open>ai_basic =
     ''Analyze this code for signs of AI generation.''\<close>

definition ai_detailed :: string where
  \<open>ai_detailed =
     ''\<newline>'' @
     ''                    Analyze this code for signs of AI generation. Consider:\<newline>'' @
     ''                    1. Code structure patterns\<newline>'' @
     ''                    2. Common AI-generated code characteristics\<newline>'' @
     ''                    3. Documentation quality\<newline>'' @
     ''                    4. Style consistency\<newline>'' @
     ''                    ''\<close>

definition ai_advanced :: string where
  \<open>ai_advanced =
     ''\<newline>'' @
     ''                    As an expert in code analysis and AI-generated content detection, thoroughly examine this code for hallmarks of AI generation.\<newline>'' @
     ''                    Analyze the following aspects and provide a confidence score (0-100%) for each:\<newline>'' @
     ''\<newline>'' @
     ''                    1. Structural fingerprints:\<newline>'' @
     ''                        - Overly consistent formatting that lacks human variability\<newline>'' @
     ''                        - Unnaturally regular comment patterns and documentation\<newline>'' @
     ''                        - Excessive or redundant error handling\<newline>'' @
     ''                    \<newline>'' @
     ''                    2. Stylistic indicators:\<newline>'' @
     ''                        - Variable naming conventions that are too consistent or follow textbook patterns\<newline>'' @
     ''                        - Lack of developer shortcuts or "quirks" found in human code\<newline>'' @
     ''                        - Unnatural comment-to-code ratio\<newline>'' @
     ''                    \<newline>'' @
     ''                    3. Logical patterns:\<newline>'' @
     ''                        - Solutions that follow common tutorial examples too closely\<newline>'' @
     ''                        - Implementations that prioritize readability over efficiency\<newline>'' @
     ''                        - Overly abstracted or generalized solutions when specificity would be more appropriate\<newline>'' @
     ''                    \<newline>'' @
     ''                    4. Technical hallmarks:\<newline>'' @
     ''                        - Implementation approaches that align with common LLM training data\<newline>'' @
     ''                        - Inclusion of explanatory comments that a human developer wouldn't typically include\<newline>'' @
     ''                        - Missing domain-specific optimizations that human experts would implement\<newline>'' @
     ''                    \<newline>'' @
     ''                    Conclude with an overall assessment of whether this code was likely AI-generated,\<newline>'' @
     ''                    partially AI-assisted, or human-written, with an overall confidence score.\<newline>'' @
     ''                    ''\<close>

type_synonym pydict = "(string \<times> string) list"

definition DOCUMENTATION_PROMPTS :: pydict where
  "DOCUMENTATION_PROMPTS =
     [(''basic'', doc_basic), (''detailed'', doc_detailed), (''advanced'', doc_advanced)]"

definition AI_DETECTION_PROMPTS :: pydict where
  "AI_DETECTION_PROMPTS =
     [(''basic'', ai_basic), (''detailed'', ai_detailed), (''advanced'', ai_advanced)]"

text \<open>\<^verbatim>\<open>d[k]\<close> raises \<^verbatim>\<open>KeyError\<close> on a missing key; \<^verbatim>\<open>d.get(k, default)\<close> does not.\<close>

definition getitem :: "pydict \<Rightarrow> string \<Rightarrow> exn + string" where
  "getitem d k = (case map_of d k of None \<Rightarrow> Inl (KeyError k) | Some v \<Rightarrow> Inr v)"

definition dict_get :: "pydict \<Rightarrow> string \<Rightarrow> string \<Rightarrow> string" where
  "dict_get d k dflt = (case map_of d k of None \<Rightarrow> dflt | Some v \<Rightarrow> v)"

text \<open>The chat model client: only the fields \<^verbatim>\<open>init\<close> passes to its constructor.\<close>

record llm_client =
  azure_endpoint :: string
  api_key :: string
  deployment_name :: string
  model_name :: string
  api_version :: string
  temperature :: rat

record session_state =
  llm :: llm_client
  HEADERS :: "(string \<times> string) list"
  GITHUB_API_URL :: string

text \<open>
  \<^verbatim>\<open>init\<close> (lines 8 to 31) reads seven environment variables with \<^verbatim>\<open>os.environ[...]\<close>, in
  this order; the first one missing raises \<^verbatim>\<open>KeyError\<close>.
\<close>

definition environ_getitem :: "(string \<rightharpoonup> string) \<Rightarrow> string \<Rightarrow> exn + string" where
  "environ_getitem env k = (case env k of None \<Rightarrow> Inl (KeyError k) | Some v \<Rightarrow> Inr v)"

definition init :: "(string \<rightharpoonup> string) \<Rightarrow> exn + session_state" where
  "init env =
     (case environ_getitem env ''AZURE_OPENAI_ENDPOINT'' of Inl e \<Rightarrow> Inl e | Inr endpoint \<Rightarrow>
      case environ_getitem env ''AZURE_OPENAI_APIKEY'' of Inl e \<Rightarrow> Inl e | Inr apikey \<Rightarrow>
      case environ_getitem env ''AZURE_OPENAI_DEPLOYMENT_NAME'' of Inl e \<Rightarrow> Inl e | Inr deployment \<Rightarrow>
      case environ_getitem env ''AZURE_OPENAI_MODEL_NAME'' of Inl e \<Rightarrow> Inl e | Inr model \<Rightarrow>
      case environ_getitem env ''AZURE_OPENAI_API_VERSION'' of Inl e \<Rightarrow> Inl e | Inr version \<Rightarrow>
      case environ_getitem env ''GITHUB_API_KEY'' of Inl e \<Rightarrow> Inl e | Inr token \<Rightarrow>
      case environ_getitem env ''GITHUB_API_URL'' of Inl e \<Rightarrow> Inl e | Inr api_url \<Rightarrow>
        Inr \<lparr> llm = \<lparr> azure_endpoint = endpoint, api_key = apikey, deployment_name = deployment,
                      model_name = model, api_version = version, temperature = 7 / 10 \<rparr>,
              HEADERS = [(''Accept'', ''application/vnd.github+json''),
                         (''Authorization'', ''Bearer '' @ token),
                         (''X-GitHub-Api-Version'', ''2022-11-28'')],
              GITHUB_API_URL = api_url \<rparr>)"

subsection \<open>Events and the outside world\<close>

datatype event =
    Requests_get string "(string \<times> string) list" "(string \<times> string) list"
  | Llm_invoke string rat
  | St_write string
  | St_success string
  | St_warning string
  | St_error string
  | St_expander string
  | St_subheader string
  | St_code string

text \<open>
  \<open>Requests_get url params headers\<close> is one call of \<^verbatim>\<open>requests.get\<close>; \<open>Llm_invoke instruction t\<close>
  is one call of \<^verbatim>\<open>llm.invoke\<close> on the client configured with temperature \<open>t\<close>; the others are
  what the page shows. Spinners, tab headers and \<^verbatim>\<open>print\<close> are left out.
\<close>

record search_item =
  name :: string
  full_name :: string
  html_url :: string

text \<open>
  The parsed JSON body of a search response, as far as the program reads it: the members
  \<^verbatim>\<open>total_count\<close> and \<^verbatim>\<open>items\<close>, each of which may be absent.
\<close>

record search_json =
  total_count :: "int option"
  items :: "search_item list option"

text \<open>
  A \<^verbatim>\<open>requests.Response\<close>: \<open>json\<close> is what \<^verbatim>\<open>response.json()\<close> gives, \<open>Inl msg\<close> when the body
  is not JSON (a \<^verbatim>\<open>requests.exceptions.JSONDecodeError\<close>, which is a \<^verbatim>\<open>RequestException\<close>).
\<close>

record response =
  status_code :: nat
  reason :: string
  url :: string
  text_body :: string
  json :: "string + search_json"

datatype get_outcome = Get_raises string | Get_returns response

datatype llm_outcome = Llm_raises string | Llm_content string

text \<open>
  The outside world. The search endpoint is called once for each press of the button; the raw
  file server and the chat model are called once for each item, so their answers may depend
  on the position \<open>k\<close> of the item in the batch as well as on the request.
\<close>

record world =
  search_reply :: "string \<Rightarrow> (string \<times> string) list \<Rightarrow> (string \<times> string) list \<Rightarrow> get_outcome"
  fetch_reply :: "nat \<Rightarrow> string \<Rightarrow> get_outcome"
  llm_reply :: "nat \<Rightarrow> string \<Rightarrow> llm_outcome"

text \<open>
  \<^verbatim>\<open>Response.raise_for_status\<close> of the requests library raises \<^verbatim>\<open>HTTPError\<close> exactly for the
  status codes 400 to 599 (client and server errors); \<open>Some msg\<close> is the raised message.
\<close>

definition raise_for_status :: "response \<Rightarrow> string option" where
  "raise_for_status r =
     (if 400 \<le> status_code r \<and> status_code r < 500
      then Some (str_nat (status_code r) @ '' Client Error: '' @ reason r @ '' for url: '' @ url r)
      else if 500 \<le> status_code r \<and> status_code r < 600
      then Some (str_nat (status_code r) @ '' Server Error: '' @ reason r @ '' for url: '' @ url r)
      else None)"

subsection \<open>\<^verbatim>\<open>search_github_code\<close> (lines 97 to 107)\<close>

definition search_github_code ::
  "session_state \<Rightarrow> world \<Rightarrow> string \<Rightarrow> event list \<times> search_json option" where
  "search_github_code st w query =
     (let params = [(''q'', query)];
          request = Requests_get (GITHUB_API_URL st) params (HEADERS st)
      in case search_reply w (GITHUB_API_URL st) params (HEADERS st) of
           Get_raises e \<Rightarrow> ([request, St_error (''GitHub API Error: '' @ e)], None)
         | Get_returns r \<Rightarrow>
             (case raise_for_status r of
                Some e \<Rightarrow> ([request, St_error (''GitHub API Error: '' @ e)], None)
              | None \<Rightarrow>
                  (case json r of
                     Inl e \<Rightarrow> ([request, St_error (''GitHub API Error: '' @ e)], None)
                   | Inr body \<Rightarrow> ([request], Some body))))"

subsection \<open>\<^verbatim>\<open>analyze_with_llm\<close> (lines 109 to 116)\<close>

definition analyze_with_llm ::
  "session_state \<Rightarrow> world \<Rightarrow> nat \<Rightarrow> string \<Rightarrow> string \<Rightarrow> event list \<times> string option" where
  "analyze_with_llm st w k code_snippet prompt =
     (let instruction = prompt @ ''\<newline>\<newline>'' @ code_snippet;
          call = Llm_invoke instruction (temperature (llm st))
      in case llm_reply w k instruction of
           Llm_raises e \<Rightarrow> ([call, St_error (''OpenAI API Error: '' @ e)], None)
         | Llm_content c \<Rightarrow> ([call], Some c))"

subsection \<open>\<^verbatim>\<open>main\<close>: the filter widgets and the Analyze button (lines 154 to 259)\<close>

record inputs =
  search_query :: string
  file_extension :: string
  min_repo_size :: int
  directory_path :: string
  min_followers :: int
  language_filter :: string
  last_pushed :: "date option"
  analysis_mode :: string
  prompt_level :: string

text \<open>
  Lines 183 to 195. A string is true when it is not empty; \<open>last_pushed\<close> is \<^verbatim>\<open>None\<close> unless
  the date box is ticked, and a date is always true.
\<close>

definition QUALITY_FILTERS :: "inputs \<Rightarrow> string list" where
  "QUALITY_FILTERS i =
     (let q0 = [];
          q1 = (if file_extension i \<noteq> [] then q0 @ [''extension:'' @ file_extension i] else q0);
          q2 = (if directory_path i \<noteq> [] then q1 @ [''path:'' @ directory_path i] else q1);
          q3 = (if min_repo_size i > 0 then q2 @ [''repo:>='' @ str_int (min_repo_size i)] else q2);
          q4 = (if min_followers i > 0
                then q3 @ [''user:>='' @ str_int (min_followers i) @ '' followers''] else q3);
          q5 = (case last_pushed i of
                  None \<Rightarrow> q4
                | Some d \<Rightarrow> q4 @ [''pushed:>='' @ strftime_Ymd d]);
          q6 = (if language_filter i \<noteq> [] then q5 @ [''language:'' @ language_filter i] else q5)
      in q6)"

text \<open>Line 212.\<close>

definition enhanced_query :: "inputs \<Rightarrow> string" where
  "enhanced_query i = search_query i @ '' '' @ join '' '' (QUALITY_FILTERS i)"

text \<open>
  Lines 216 to 219. The default of \<^verbatim>\<open>get\<close> is evaluated before the lookup, and is itself a
  lookup that could raise.
\<close>

definition select_prompt :: "string \<Rightarrow> string \<Rightarrow> exn + string" where
  "select_prompt mode level =
     (if mode = ''Documentation Generator''
      then (case getitem DOCUMENTATION_PROMPTS ''detailed'' of
              Inl e \<Rightarrow> Inl e
            | Inr dflt \<Rightarrow> Inr (dict_get DOCUMENTATION_PROMPTS level dflt))
      else (case getitem AI_DETECTION_PROMPTS ''detailed'' of
              Inl e \<Rightarrow> Inl e
            | Inr dflt \<Rightarrow> Inr (dict_get AI_DETECTION_PROMPTS level dflt)))"

text \<open>Lines 233 to 235 and line 240.\<close>

definition raw_url :: "string \<Rightarrow> string" where
  "raw_url u =
     replace ''/blob'' '''' (replace ''https://github.com'' ''https://raw.githubusercontent.com'' u)"

definition code_snippet :: "string \<Rightarrow> string" where
  "code_snippet body = take 2500 body"

text \<open>
  The body of the loop (lines 231 to 257) for the item at position \<open>k\<close>. The call
  \<^verbatim>\<open>requests.get(raw_url)\<close> is outside any \<^verbatim>\<open>try\<close>: when it raises, the exception leaves the
  loop. The result is the events of this item and the exception, if any.
\<close>

definition process_item ::
  "session_state \<Rightarrow> world \<Rightarrow> string \<Rightarrow> nat \<Rightarrow> search_item \<Rightarrow> event list \<times> exn option" where
  "process_item st w prompt k item =
     (let label = ''File: '' @ name item @ '' (Repo: '' @ full_name item @ '')'';
          target = raw_url (html_url item);
          opening = [St_expander label, Requests_get target [] []]
      in case fetch_reply w k target of
           Get_raises e \<Rightarrow> (opening, Some (RequestException e))
         | Get_returns code_response \<Rightarrow>
             if status_code code_response = 200
             then (let snippet = code_snippet (text_body code_response);
                       (evs, analysis) = analyze_with_llm st w k snippet prompt
                   in (opening @ [St_subheader label, St_code snippet] @ evs @
                         [case analysis of
                            None \<Rightarrow> St_error ''Failed to analyze code.''
                          | Some a \<Rightarrow> if a \<noteq> [] then St_write a
                                      else St_error ''Failed to analyze code.''],
                       None))
             else (opening @ [St_error ''Failed to retrieve code content''], None))"

fun process_items ::
  "session_state \<Rightarrow> world \<Rightarrow> string \<Rightarrow> nat \<Rightarrow> search_item list \<Rightarrow> event list \<times> exn option" where
  "process_items st w prompt k [] = ([], None)"
| "process_items st w prompt k (item # rest) =
     (case process_item st w prompt k item of
        (evs, Some e) \<Rightarrow> (evs, Some e)
      | (evs, None) \<Rightarrow>
          (case process_items st w prompt (Suc k) rest of (evs', r) \<Rightarrow> (evs @ evs', r)))"

text \<open>
  What pressing "Analyze Code" does (lines 207 to 259). A dictionary that has the key
  \<^verbatim>\<open>items\<close> is not empty, so the test of line 226 is the presence of that key;
  \<^verbatim>\<open>search_results['total_count']\<close> raises when that key is absent.
\<close>

definition analyze_code :: "session_state \<Rightarrow> world \<Rightarrow> inputs \<Rightarrow> event list \<times> exn option" where
  "analyze_code st w i =
     (if search_query i = [] then ([St_warning ''Please enter a search query''], None)
      else
        let shown = [St_write (''Enhanced Query: '' @ enhanced_query i)] in
        case select_prompt (analysis_mode i) (prompt_level i) of
          Inl e \<Rightarrow> (shown, Some e)
        | Inr prompt \<Rightarrow>
            (case search_github_code st w (enhanced_query i) of
               (sevs, None) \<Rightarrow>
                 (shown @ sevs @ [St_error ''No results found or error in search''], None)
             | (sevs, Some search_results) \<Rightarrow>
                 (case items search_results of
                    None \<Rightarrow> (shown @ sevs @ [St_error ''No results found or error in search''], None)
                  | Some its \<Rightarrow>
                      (case total_count search_results of
                         None \<Rightarrow> (shown @ sevs, Some (KeyError ''total_count''))
                       | Some n \<Rightarrow>
                           (case process_items st w prompt 0 (take 3 its) of
                              (evs, r) \<Rightarrow>
                                (shown @ sevs @ [St_success (''Found '' @ str_int n @ '' results'')] @ evs,
                                 r))))))"

text \<open>Observers of an event list, used to state the properties.\<close>

fun is_get :: "event \<Rightarrow> bool" where
  "is_get (Requests_get u ps hs) = True"
| "is_get e = False"

fun is_invoke :: "event \<Rightarrow> bool" where
  "is_invoke (Llm_invoke s t) = True"
| "is_invoke e = False"

definition network_calls :: "event list \<Rightarrow> event list" where
  "network_calls evs = filter (\<lambda>e. is_get e \<or> is_invoke e) evs"

fun get_urls :: "event list \<Rightarrow> string list" where
  "get_urls [] = []"
| "get_urls (Requests_get u ps hs # es) = u # get_urls es"
| "get_urls (e # es) = get_urls es"

text \<open>The events of one item of the batch, the title of its panel, and whether the raw
  file server answered its request at all (with any status) rather than failing to.\<close>

definition item_events ::
  "session_state \<Rightarrow> world \<Rightarrow> string \<Rightarrow> nat \<times> search_item \<Rightarrow> event list" where
  "item_events st w prompt p = fst (process_item st w prompt (fst p) (snd p))"

definition panel_label :: "search_item \<Rightarrow> string" where
  "panel_label item = ''File: '' @ name item @ '' (Repo: '' @ full_name item @ '')''"

definition fetch_answered :: "world \<Rightarrow> nat \<times> search_item \<Rightarrow> bool" where
  "fetch_answered w p =
     (case fetch_reply w (fst p) (raw_url (html_url (snd p))) of
        Get_raises e \<Rightarrow> False | Get_returns r \<Rightarrow> True)"



subsection \<open>Concrete scenarios\<close>

definition example_env :: "string \<rightharpoonup> string" where
  "example_env =
     [''AZURE_OPENAI_ENDPOINT'' \<mapsto> ''https://example.openai.azure.com'',
      ''AZURE_OPENAI_APIKEY'' \<mapsto> ''k1'',
      ''AZURE_OPENAI_DEPLOYMENT_NAME'' \<mapsto> ''gpt'',
      ''AZURE_OPENAI_MODEL_NAME'' \<mapsto> ''gpt-4o'',
      ''AZURE_OPENAI_API_VERSION'' \<mapsto> ''2024-02-01'',
      ''GITHUB_API_KEY'' \<mapsto> ''t0k'',
      ''GITHUB_API_URL'' \<mapsto> ''https://api.github.com/search/code'']"

definition example_session :: session_state where
  "example_session =
     \<lparr> llm = \<lparr> azure_endpoint = ''https://example.openai.azure.com'', api_key = ''k1'',
                deployment_name = ''gpt'', model_name = ''gpt-4o'', api_version = ''2024-02-01'',
                temperature = 7 / 10 \<rparr>,
       HEADERS = [(''Accept'', ''application/vnd.github+json''),
                  (''Authorization'', ''Bearer t0k''),
                  (''X-GitHub-Api-Version'', ''2022-11-28'')],
       GITHUB_API_URL = ''https://api.github.com/search/code'' \<rparr>"

text \<open>A query with every filter widget left at its default.\<close>

definition plain_inputs :: "string \<Rightarrow> inputs" where
  "plain_inputs q =
     \<lparr> search_query = q, file_extension = '''', min_repo_size = 0, directory_path = '''',
       min_followers = 0, language_filter = '''', last_pushed = None,
       analysis_mode = ''Documentation Generator'', prompt_level = ''basic'' \<rparr>"

definition item_of :: "string \<Rightarrow> search_item" where
  "item_of path =
     \<lparr> name = path, full_name = ''octo/demo'',
       html_url = ''https://github.com/octo/demo/blob/main/'' @ path \<rparr>"

definition five_items :: "search_item list" where
  "five_items = map item_of [''a.py'', ''b.py'', ''c.py'', ''d.py'', ''e.py'']"

definition ok_response :: "nat \<Rightarrow> search_item list \<Rightarrow> response" where
  "ok_response code its =
     \<lparr> status_code = code, reason = '''', url = '''', text_body = '''',
       json = Inr \<lparr> total_count = Some (int (length its)), items = Some its \<rparr> \<rparr>"

definition plain_response :: "nat \<Rightarrow> string \<Rightarrow> response" where
  "plain_response code body =
     \<lparr> status_code = code, reason = '''', url = '''', text_body = body,
       json = Inl ''Expecting value: line 1 column 1 (char 0)'' \<rparr>"

text \<open>
  A world where the search answers with status \<open>code\<close> and the given items, the raw file of
  the second item is missing (404) and the chat model always answers.
\<close>

definition demo_world :: "nat \<Rightarrow> search_item list \<Rightarrow> world" where
  "demo_world code its =
     \<lparr> search_reply = (\<lambda>u ps hs. Get_returns (ok_response code its)),
       fetch_reply = (\<lambda>k u. if k = 1 then Get_returns (plain_response 404 ''404: Not Found'')
                             else Get_returns (plain_response 200 ''print(1)'')),
       llm_reply = (\<lambda>k s. Llm_content ''Prints 1.'') \<rparr>"


text \<open>
  A world where the search answers with the given items and the request for the raw file of
  the second item fails to complete.
\<close>

definition offline_world :: "search_item list \<Rightarrow> world" where
  "offline_world its =
     \<lparr> search_reply = (\<lambda>u ps hs. Get_returns (ok_response 200 its)),
       fetch_reply = (\<lambda>k u. if k = 1 then Get_raises ''Connection refused''
                             else Get_returns (plain_response 200 ''print(1)'')),
       llm_reply = (\<lambda>k s. Llm_content ''Prints 1.'') \<rparr>"

section \<open>Properties\<close>

subsection \<open>Auxiliary facts\<close>

lemma init_example: "init example_env = Inr example_session"
  by (simp add: init_def environ_getitem_def example_env_def example_session_def)

lemma init_session:
  assumes "init env = Inr st"
  shows "temperature (llm st) = 7 / 10"
    and "env ''GITHUB_API_KEY'' = Some token \<Longrightarrow>
         HEADERS st = [(''Accept'', ''application/vnd.github+json''),
                       (''Authorization'', ''Bearer '' @ token),
                       (''X-GitHub-Api-Version'', ''2022-11-28'')]"
    and "env ''GITHUB_API_URL'' = Some api_url \<Longrightarrow> GITHUB_API_URL st = api_url"
  using assms
  by (auto simp: init_def environ_getitem_def split: sum.splits option.splits)

text \<open>The two catalogues have the key \<^verbatim>\<open>detailed\<close>, so choosing a prompt never raises.\<close>

lemma select_prompt_total:
  "select_prompt mode level =
     Inr (dict_get (if mode = ''Documentation Generator'' then DOCUMENTATION_PROMPTS
                    else AI_DETECTION_PROMPTS) level
            (if mode = ''Documentation Generator'' then doc_detailed else ai_detailed))"
  by (simp add: select_prompt_def getitem_def DOCUMENTATION_PROMPTS_def AI_DETECTION_PROMPTS_def)

lemma search_request:
  "network_calls (fst (search_github_code st w q)) =
     [Requests_get (GITHUB_API_URL st) [(''q'', q)] (HEADERS st)]"
  by (simp add: search_github_code_def network_calls_def Let_def
           split: get_outcome.split option.split sum.split)

lemma search_success_events:
  "search_github_code st w q = (sevs, Some body) \<Longrightarrow>
     sevs = [Requests_get (GITHUB_API_URL st) [(''q'', q)] (HEADERS st)]"
  by (auto simp: search_github_code_def Let_def split: get_outcome.splits option.splits sum.splits)

lemma demo_search:
  "code < 400 \<Longrightarrow>
     search_github_code example_session (demo_world code its) q =
       ([Requests_get ''https://api.github.com/search/code'' [(''q'', q)]
           [(''Accept'', ''application/vnd.github+json''), (''Authorization'', ''Bearer t0k''),
            (''X-GitHub-Api-Version'', ''2022-11-28'')]],
        Some \<lparr> total_count = Some (int (length its)), items = Some its \<rparr>)"
  by (simp add: search_github_code_def demo_world_def ok_response_def raise_for_status_def
        example_session_def)

lemma get_urls_append: "get_urls (xs @ ys) = get_urls xs @ get_urls ys"
  by (induction xs rule: get_urls.induct) simp_all

lemma analyze_with_llm_events:
  "get_urls (fst (analyze_with_llm st w k s p)) = []
   \<and> length (filter is_invoke (fst (analyze_with_llm st w k s p))) = 1"
  by (simp add: analyze_with_llm_def Let_def split: llm_outcome.split)

text \<open>Each item costs exactly one request to the raw file server and at most one model call.\<close>

lemma process_item_calls:
  "get_urls (fst (process_item st w p k it)) = [raw_url (html_url it)]
   \<and> length (filter is_invoke (fst (process_item st w p k it))) \<le> 1"
proof (cases "fetch_reply w k (raw_url (html_url it))")
  case (Get_raises e)
  then show ?thesis by (simp add: process_item_def Let_def)
next
  case (Get_returns r)
  obtain evs a where a: "analyze_with_llm st w k (code_snippet (text_body r)) p = (evs, a)"
    by (cases "analyze_with_llm st w k (code_snippet (text_body r)) p")
  from analyze_with_llm_events [of st w k "code_snippet (text_body r)" p] a
  have e: "get_urls evs = []" "length (filter is_invoke evs) = 1" by simp_all
  have n: "\<not> is_invoke (case a of None \<Rightarrow> St_error ''Failed to analyze code.''
                          | Some c \<Rightarrow> if c \<noteq> [] then St_write c
                                      else St_error ''Failed to analyze code.'')"
    by (simp split: option.split)
  have g: "get_urls [case a of None \<Rightarrow> St_error ''Failed to analyze code.''
                          | Some c \<Rightarrow> if c \<noteq> [] then St_write c
                                      else St_error ''Failed to analyze code.''] = []"
    by (simp split: option.split)
  show ?thesis
    using Get_returns a e n g
    by (simp add: process_item_def Let_def get_urls_append)
qed

lemma process_item_returns:
  "fetch_answered w (k, it) \<Longrightarrow> snd (process_item st w p k it) = None"
  by (auto simp: process_item_def fetch_answered_def Let_def split: get_outcome.splits prod.split)

lemma process_items_calls:
  "prefix (get_urls (fst (process_items st w p k its))) (map (\<lambda>it. raw_url (html_url it)) its)
   \<and> length (filter is_invoke (fst (process_items st w p k its)))
       \<le> length (get_urls (fst (process_items st w p k its)))"
proof (induction its arbitrary: k)
  case Nil
  then show ?case by simp
next
  case (Cons it its)
  obtain evs r where h: "process_item st w p k it = (evs, r)"
    by (cases "process_item st w p k it")
  obtain evs' r' where t: "process_items st w p (Suc k) its = (evs', r')"
    by (cases "process_items st w p (Suc k) its")
  from process_item_calls [of st w p k it] h
  have c: "get_urls evs = [raw_url (html_url it)]" "length (filter is_invoke evs) \<le> 1"
    by simp_all
  from Cons.IH [of "Suc k"] t
  have ih: "prefix (get_urls evs') (map (\<lambda>it. raw_url (html_url it)) its)"
    "length (filter is_invoke evs') \<le> length (get_urls evs')"
    by simp_all
  show ?case
    using h t c ih by (cases r) (simp_all add: get_urls_append)
qed

text \<open>When the raw file server answers every request, the loop runs to its end and its
  events are those of the items, one after the other.\<close>

lemma process_items_all:
  "\<forall>p \<in> set (enumerate k its). fetch_answered w p \<Longrightarrow>
     process_items st w p k its = (concat (map (item_events st w p) (enumerate k its)), None)"
proof (induction its arbitrary: k)
  case Nil
  then show ?case by simp
next
  case (Cons it its)
  from Cons.prems have a: "fetch_answered w (k, it)"
    and b: "\<forall>p \<in> set (enumerate (Suc k) its). fetch_answered w p"
    by simp_all
  obtain evs where h: "process_item st w p k it = (evs, None)"
    using process_item_returns [OF a, of st p] by (cases "process_item st w p k it") simp
  show ?case
    using h Cons.IH [OF b] by (simp add: item_events_def)
qed

lemma get_urls_item_events:
  "get_urls (concat (map (item_events st w p) (enumerate k its))) =
     map (\<lambda>it. raw_url (html_url it)) its"
proof (induction its arbitrary: k)
  case Nil
  then show ?case by simp
next
  case (Cons it its)
  from process_item_calls [of st w p k it]
  have "get_urls (item_events st w p (k, it)) = [raw_url (html_url it)]"
    by (simp add: item_events_def)
  with Cons.IH [of "Suc k"] show ?case
    by (simp add: get_urls_append)
qed

text \<open>What the panel of one item shows, by the answer of the raw file server and of the model.\<close>

lemma item_events_report:
  assumes "fetch_reply w k (raw_url (html_url it)) = Get_returns r"
  shows "(status_code r \<noteq> 200 \<longrightarrow>
            item_events st w prompt (k, it) =
              [St_expander (panel_label it), Requests_get (raw_url (html_url it)) [] [],
               St_error ''Failed to retrieve code content''])
         \<and> (status_code r = 200 \<longrightarrow>
              take 5 (item_events st w prompt (k, it)) =
                [St_expander (panel_label it), Requests_get (raw_url (html_url it)) [] [],
                 St_subheader (panel_label it), St_code (take 2500 (text_body r)),
                 Llm_invoke (prompt @ ''\<newline>\<newline>'' @ take 2500 (text_body r)) (temperature (llm st))]
              \<and> (\<forall>c. llm_reply w k (prompt @ ''\<newline>\<newline>'' @ take 2500 (text_body r)) = Llm_content c
                       \<and> c \<noteq> [] \<longrightarrow>
                     drop 5 (item_events st w prompt (k, it)) = [St_write c])
              \<and> (llm_reply w k (prompt @ ''\<newline>\<newline>'' @ take 2500 (text_body r)) = Llm_content [] \<longrightarrow>
                     drop 5 (item_events st w prompt (k, it)) = [St_error ''Failed to analyze code.''])
              \<and> (\<forall>e. llm_reply w k (prompt @ ''\<newline>\<newline>'' @ take 2500 (text_body r)) = Llm_raises e \<longrightarrow>
                     drop 5 (item_events st w prompt (k, it)) =
                       [St_error (''OpenAI API Error: '' @ e), St_error ''Failed to analyze code.'']))"
  using assms
  by (cases "llm_reply w k (prompt @ ''\<newline>\<newline>'' @ take 2500 (text_body r))")
     (simp_all add: item_events_def process_item_def analyze_with_llm_def code_snippet_def
        panel_label_def Let_def)

text \<open>
  The request for a raw file is not guarded: when \<^verbatim>\<open>requests.get\<close> itself raises (no
  connection, say), the exception leaves the loop and the items after it are not reached.
\<close>

lemma fetch_exception_leaves_loop:
  "fetch_reply w k (raw_url (html_url it)) = Get_raises e \<Longrightarrow>
     process_items st w prompt k (it # rest) =
       ([St_expander (panel_label it), Requests_get (raw_url (html_url it)) [] []],
        Some (RequestException e))"
  by (simp add: process_item_def panel_label_def Let_def)

lemma analyze_code_found:
  assumes "search_query i \<noteq> []"
    and "select_prompt (analysis_mode i) (prompt_level i) = Inr prompt"
    and "search_github_code st w (enhanced_query i) = (sevs, Some body)"
    and "items body = Some its" and "total_count body = Some n"
  shows "analyze_code st w i =
           ([St_write (''Enhanced Query: '' @ enhanced_query i),
             Requests_get (GITHUB_API_URL st) [(''q'', enhanced_query i)] (HEADERS st),
             St_success (''Found '' @ str_int n @ '' results'')]
              @ fst (process_items st w prompt 0 (take 3 its)),
            snd (process_items st w prompt 0 (take 3 its)))"
  using assms search_success_events [OF assms(3)]
  by (simp add: analyze_code_def Let_def split: prod.split)

lemma raw_url_item_of:
  "raw_url (html_url (item_of ''a.py'')) = ''https://raw.githubusercontent.com/octo/demo/main/a.py''"
  "raw_url (html_url (item_of ''b.py'')) = ''https://raw.githubusercontent.com/octo/demo/main/b.py''"
  "raw_url (html_url (item_of ''c.py'')) = ''https://raw.githubusercontent.com/octo/demo/main/c.py''"
  by (simp_all add: raw_url_def item_of_def)

lemma take_3_five_items:
  "take 3 five_items = [item_of ''a.py'', item_of ''b.py'', item_of ''c.py'']"
  by (simp add: five_items_def numeral_3_eq_3)

text \<open>Facts about \<open>replace\<close>: an occurrence at the front is replaced, a stretch where no
  occurrence starts is copied, and a string without an occurrence is unchanged.\<close>

lemma replace_hit:
  "old \<noteq> [] \<Longrightarrow> replace old new (old @ b) = new @ replace old new b"
  by (cases old) simp_all

lemma replace_skip:
  "old \<noteq> [] \<Longrightarrow> \<forall>i < length a. \<not> prefix old (drop i (a @ b)) \<Longrightarrow>
     replace old new (a @ b) = a @ replace old new b"
proof (induction a)
  case Nil
  then show ?case by simp
next
  case (Cons c a)
  from Cons.prems(2) have h: "\<not> prefix old (c # a @ b)"
    by force
  have t: "\<forall>i < length a. \<not> prefix old (drop i (a @ b))"
  proof (intro allI impI)
    fix i assume "i < length a"
    then have "Suc i < length (c # a)" by simp
    with Cons.prems(2) have "\<not> prefix old (drop (Suc i) ((c # a) @ b))" by blast
    then show "\<not> prefix old (drop i (a @ b))" by simp
  qed
  from Cons.IH [OF Cons.prems(1) t] h Cons.prems(1) show ?case by simp
qed

lemma prefix_drop_sublist:
  "prefix old (drop i s) \<Longrightarrow> sublist old s"
  by (metis append_take_drop_id prefix_def sublist_appendI)

lemma replace_none:
  assumes "old \<noteq> []" and "\<not> sublist old s"
  shows "replace old new s = s"
proof -
  have "\<forall>i < length s. \<not> prefix old (drop i (s @ []))"
    using assms(2) prefix_drop_sublist by auto
  from replace_skip [OF assms(1) this, of new] assms(1) show ?thesis by simp
qed

text \<open>
  The raw URL is right for a blob URL in which \<^verbatim>\<open>/blob\<close> occurs nowhere but after the repository
  (and the host nowhere but at the front).
\<close>

lemma blob_straddle:
  assumes "i < length a" and "prefix ''/blob'' (drop i (a @ ''/blob'' @ b))"
  shows "sublist ''/blob'' a"
proof -
  from assms(1) have d: "drop i (a @ ''/blob'' @ b) = drop i a @ ''/blob'' @ b" by simp
  from assms(1) have ne: "drop i a \<noteq> []" by simp
  from assms(2) d have "prefix ''/blob'' (drop i a @ ''/blob'' @ b)" by simp
  then have "prefix ''/blob'' (drop i a)"
    using ne
    by (auto simp: prefix_append Cons_eq_append_conv)
  then show ?thesis by (rule prefix_drop_sublist)
qed

lemma raw_url_blob_url:
  assumes "\<not> sublist ''https://github.com'' (''/'' @ owner @ ''/'' @ repo @ ''/blob/'' @ branch @ ''/'' @ path)"
    and "\<not> sublist ''/blob'' (''/'' @ owner @ ''/'' @ repo)"
    and "\<not> sublist ''/blob'' (''/'' @ branch @ ''/'' @ path)"
  shows "raw_url (''https://github.com/'' @ owner @ ''/'' @ repo @ ''/blob/'' @ branch @ ''/'' @ path)
         = ''https://raw.githubusercontent.com/'' @ owner @ ''/'' @ repo @ ''/'' @ branch @ ''/'' @ path"
proof -
  let ?A = "''/'' @ owner @ ''/'' @ repo"
  let ?B = "''/'' @ branch @ ''/'' @ path"
  have 1: "replace ''https://github.com'' ''https://raw.githubusercontent.com''
             (''https://github.com'' @ (?A @ ''/blob'' @ ?B))
           = ''https://raw.githubusercontent.com'' @ (?A @ ''/blob'' @ ?B)"
    using replace_hit [of "''https://github.com''" "?A @ ''/blob'' @ ?B" "''https://raw.githubusercontent.com''"]
          replace_none [of "''https://github.com''" "?A @ ''/blob'' @ ?B" "''https://raw.githubusercontent.com''"]
          assms(1)
    by simp
  have s: "\<forall>i < length ?A. \<not> prefix ''/blob'' (drop i (?A @ ''/blob'' @ ?B))"
    using blob_straddle [of _ ?A ?B] assms(2) by blast
  have 2: "replace ''/blob'' '''' (?A @ ''/blob'' @ ?B) = ?A @ ?B"
    using replace_skip [OF _ s, of "''''"] replace_hit [of "''/blob''" ?B "''''"]
          replace_none [of "''/blob''" ?B "''''"] assms(3)
    by simp
  have 3: "replace ''/blob'' '''' (''https://raw.githubusercontent.com'' @ (?A @ ''/blob'' @ ?B))
           = ''https://raw.githubusercontent.com'' @ replace ''/blob'' '''' (?A @ ''/blob'' @ ?B)"
    by simp
  show ?thesis
    unfolding raw_url_def using 1 2 3 by simp
qed

text \<open>The decimal form of a number has digits only, and a date of four-digit year is written
  as four, two and two digits separated by hyphens.\<close>

lemma digit_char_digit: "n < 10 \<Longrightarrow> digit_char n \<in> set ''0123456789''"
proof -
  assume "n < 10"
  then have "n \<in> {0, 1, 2, 3, 4, 5, 6, 7, 8, 9}" by auto
  then show ?thesis by (auto simp: digit_char_def)
qed

lemma str_nat_digits: "set (str_nat n) \<subseteq> set ''0123456789''"
proof (induction n rule: str_nat.induct)
  case (1 n)
  show ?case
  proof (cases "n < 10")
    case True
    then show ?thesis
      using digit_char_digit [of n] by (subst str_nat.simps) simp
  next
    case False
    have "n mod 10 < 10" by simp
    from digit_char_digit [OF this] 1 [OF False] False show ?thesis
      by (subst str_nat.simps) simp
  qed
qed

lemma length_str_nat_1: "n < 10 \<Longrightarrow> length (str_nat n) = 1"
  by (subst str_nat.simps) simp

lemma length_str_nat_2: "n < 100 \<Longrightarrow> length (str_nat n) \<le> 2"
  by (subst str_nat.simps) (simp add: length_str_nat_1)

lemma length_str_nat_3: "n < 1000 \<Longrightarrow> length (str_nat n) \<le> 3"
proof -
  assume a: "n < 1000"
  then have "n div 10 < 100" by simp
  from length_str_nat_2 [OF this] show ?thesis
    by (subst str_nat.simps) simp
qed

lemma length_str_nat_4: "n < 10000 \<Longrightarrow> length (str_nat n) \<le> 4"
proof -
  assume a: "n < 10000"
  then have "n div 10 < 1000" by simp
  from length_str_nat_3 [OF this] show ?thesis
    by (subst str_nat.simps) simp
qed

lemma zfill_shape:
  "length s \<le> w \<Longrightarrow> set s \<subseteq> set ''0123456789'' \<Longrightarrow>
     length (zfill w s) = w \<and> set (zfill w s) \<subseteq> set ''0123456789''"
  by (auto simp: zfill_def)

lemma strftime_Ymd_shape:
  assumes "year d < 10000" and "month d < 100" and "day d < 100"
  shows "\<exists>Y M D. strftime_Ymd d = Y @ ''-'' @ M @ ''-'' @ D
           \<and> length Y = 4 \<and> length M = 2 \<and> length D = 2
           \<and> set (Y @ M @ D) \<subseteq> set ''0123456789''"
proof -
  let ?Y = "zfill 4 (str_nat (year d))"
  let ?M = "zfill 2 (str_nat (month d))"
  let ?D = "zfill 2 (str_nat (day d))"
  from zfill_shape [OF length_str_nat_4 [OF assms(1)] str_nat_digits]
  have y: "length ?Y = 4" "set ?Y \<subseteq> set ''0123456789''" by simp_all
  from zfill_shape [OF length_str_nat_2 [OF assms(2)] str_nat_digits]
  have m: "length ?M = 2" "set ?M \<subseteq> set ''0123456789''" by simp_all
  from zfill_shape [OF length_str_nat_2 [OF assms(3)] str_nat_digits]
  have dd: "length ?D = 2" "set ?D \<subseteq> set ''0123456789''" by simp_all
  have "strftime_Ymd d = ?Y @ ''-'' @ ?M @ ''-'' @ ?D"
    by (simp add: strftime_Ymd_def)
  with y m dd show ?thesis
    by (intro exI [of _ ?Y] exI [of _ ?M] exI [of _ ?D]) simp
qed






lemma plain_query:
  "search_query (plain_inputs ''CNN'') \<noteq> []"
  "enhanced_query (plain_inputs ''CNN'') = ''CNN ''"
  "select_prompt (analysis_mode (plain_inputs ''CNN'')) (prompt_level (plain_inputs ''CNN''))
     = Inr doc_basic"
  by (simp_all add: plain_inputs_def enhanced_query_def QUALITY_FILTERS_def select_prompt_total
        dict_get_def DOCUMENTATION_PROMPTS_def)


lemma offline_search:
  "search_github_code example_session (offline_world its) q =
     ([Requests_get ''https://api.github.com/search/code'' [(''q'', q)]
         [(''Accept'', ''application/vnd.github+json''), (''Authorization'', ''Bearer t0k''),
          (''X-GitHub-Api-Version'', ''2022-11-28'')]],
      Some \<lparr> total_count = Some (int (length its)), items = Some its \<rparr>)"
  by (simp add: search_github_code_def offline_world_def ok_response_def raise_for_status_def
        example_session_def)

subsection \<open>The filter builder\<close>

text \<open>
  Claim C1. Whatever the six filter inputs are, \<open>QUALITY_FILTERS\<close> holds one token for each
  input that is not at its default (a non-empty extension, a non-empty directory path, a
  repository size above 0, a follower count above 0, a chosen date, a non-empty language)
  and none for the others, in the order extension, path, repository size, followers, pushed
  date, language, each token in its textual form \<^verbatim>\<open>extension:<ext>\<close>, \<^verbatim>\<open>path:<dir>\<close>,
  \<^verbatim>\<open>repo:>=<n>\<close>, \<^verbatim>\<open>user:>=<n> followers\<close>, \<^verbatim>\<open>pushed:>=<YYYY-MM-DD>\<close>, \<^verbatim>\<open>language:<lang>\<close>. The
  number of tokens is the number of such inputs, and a token starting with \<^verbatim>\<open>repo:>=\<close>
  (with \<^verbatim>\<open>user:>=\<close>) is present exactly when the repository size (the follower count) is
  strictly greater than 0. For a date of four-digit year the date token is \<^verbatim>\<open>pushed:>=\<close>
  followed by four digits, a hyphen, two digits, a hyphen and two digits.
\<close>

theorem filter_builder_tokens:
  "QUALITY_FILTERS i =
     concat
       [if file_extension i \<noteq> [] then [''extension:'' @ file_extension i] else [],
        if directory_path i \<noteq> [] then [''path:'' @ directory_path i] else [],
        if 0 < min_repo_size i then [''repo:>='' @ str_int (min_repo_size i)] else [],
        if 0 < min_followers i then [''user:>='' @ str_int (min_followers i) @ '' followers''] else [],
        case last_pushed i of None \<Rightarrow> [] | Some d \<Rightarrow> [''pushed:>='' @ strftime_Ymd d],
        if language_filter i \<noteq> [] then [''language:'' @ language_filter i] else []]
   \<and> length (QUALITY_FILTERS i) =
       length (filter id
         [file_extension i \<noteq> [], directory_path i \<noteq> [], 0 < min_repo_size i,
          0 < min_followers i, last_pushed i \<noteq> None, language_filter i \<noteq> []])
   \<and> ((\<exists>t \<in> set (QUALITY_FILTERS i). prefix ''repo:>='' t) \<longleftrightarrow> 0 < min_repo_size i)
   \<and> ((\<exists>t \<in> set (QUALITY_FILTERS i). prefix ''user:>='' t) \<longleftrightarrow> 0 < min_followers i)
   \<and> (\<forall>d. last_pushed i = Some d \<and> 1000 \<le> year d \<and> year d < 10000
            \<and> month d < 100 \<and> day d < 100 \<longrightarrow>
         (\<exists>Y M D. ''pushed:>='' @ Y @ ''-'' @ M @ ''-'' @ D \<in> set (QUALITY_FILTERS i)
            \<and> length Y = 4 \<and> length M = 2 \<and> length D = 2
            \<and> set (Y @ M @ D) \<subseteq> set ''0123456789''))"
proof -
  have a: "QUALITY_FILTERS i =
     concat
       [if file_extension i \<noteq> [] then [''extension:'' @ file_extension i] else [],
        if directory_path i \<noteq> [] then [''path:'' @ directory_path i] else [],
        if 0 < min_repo_size i then [''repo:>='' @ str_int (min_repo_size i)] else [],
        if 0 < min_followers i then [''user:>='' @ str_int (min_followers i) @ '' followers''] else [],
        case last_pushed i of None \<Rightarrow> [] | Some d \<Rightarrow> [''pushed:>='' @ strftime_Ymd d],
        if language_filter i \<noteq> [] then [''language:'' @ language_filter i] else []]"
    by (simp add: QUALITY_FILTERS_def Let_def split: option.split)
  have b: "length (QUALITY_FILTERS i) =
       length (filter id
         [file_extension i \<noteq> [], directory_path i \<noteq> [], 0 < min_repo_size i,
          0 < min_followers i, last_pushed i \<noteq> None, language_filter i \<noteq> []])"
    by (simp add: QUALITY_FILTERS_def Let_def split: option.split)
  have c: "(\<exists>t \<in> set (QUALITY_FILTERS i). prefix ''repo:>='' t) \<longleftrightarrow> 0 < min_repo_size i"
    "(\<exists>t \<in> set (QUALITY_FILTERS i). prefix ''user:>='' t) \<longleftrightarrow> 0 < min_followers i"
    by (simp_all add: QUALITY_FILTERS_def Let_def split: option.split)
  have d: "\<exists>Y M D. ''pushed:>='' @ Y @ ''-'' @ M @ ''-'' @ D \<in> set (QUALITY_FILTERS i)
            \<and> length Y = 4 \<and> length M = 2 \<and> length D = 2
            \<and> set (Y @ M @ D) \<subseteq> set ''0123456789''"
    if "last_pushed i = Some d" "year d < 10000" "month d < 100" "day d < 100" for d
  proof -
    from strftime_Ymd_shape [OF that(2) that(3) that(4)]
    obtain Y M D where s: "strftime_Ymd d = Y @ ''-'' @ M @ ''-'' @ D"
      "length Y = 4" "length M = 2" "length D = 2" "set (Y @ M @ D) \<subseteq> set ''0123456789''"
      by blast
    have "''pushed:>='' @ strftime_Ymd d \<in> set (QUALITY_FILTERS i)"
      using that(1) by (simp add: a)
    with s show ?thesis by metis
  qed
  from a b c d show ?thesis by blast
qed

text \<open>
  Witness for C1: extension \<^verbatim>\<open>.py\<close>, repository size 100, pushed after 2020-01-01 and
  language Python, with the path empty and the follower count 0, give four tokens.
\<close>

theorem filter_builder_tokens_witness:
  "QUALITY_FILTERS \<lparr>search_query = ''CNN implementation'', file_extension = ''.py'',
       min_repo_size = 100, directory_path = '''', min_followers = 0,
       language_filter = ''Python'', last_pushed = Some \<lparr>year = 2020, month = 1, day = 1\<rparr>,
       analysis_mode = ''Documentation Generator'', prompt_level = ''basic''\<rparr>
   = [''extension:.py'', ''repo:>=100'', ''pushed:>=2020-01-01'', ''language:Python'']"
  using filter_builder_tokens [of "\<lparr>search_query = ''CNN implementation'', file_extension = ''.py'',
       min_repo_size = 100, directory_path = '''', min_followers = 0,
       language_filter = ''Python'', last_pushed = Some \<lparr>year = 2020, month = 1, day = 1\<rparr>,
       analysis_mode = ''Documentation Generator'', prompt_level = ''basic''\<rparr>"]
  by (simp add: str_int_def strftime_Ymd_def zfill_def str_nat.simps digit_char_def)

subsection \<open>The search string\<close>

text \<open>
  Claim C2 says that with no token the search string is the free-text query itself. Line 212
  always writes the separating space: with every filter at its default the query \<^verbatim>\<open>CNN\<close> is
  sent as \<^verbatim>\<open>CNN\<close> followed by a space.
\<close>

theorem enhanced_query_empty_filters_counterexample:
  "QUALITY_FILTERS (plain_inputs ''CNN'') = []
   \<and> enhanced_query (plain_inputs ''CNN'') = ''CNN ''
   \<and> enhanced_query (plain_inputs ''CNN'') \<noteq> search_query (plain_inputs ''CNN'')"
  by (simp add: enhanced_query_def QUALITY_FILTERS_def plain_inputs_def)

text \<open>
  Claim C2, amended. The search string is the free-text query, one space, and the tokens
  joined by single spaces in their fixed order; when there is no token it is the query
  followed by one space. For a non-empty query it is the value of the parameter \<^verbatim>\<open>q\<close> of the
  first request the program makes, the one to the search endpoint.
\<close>

theorem enhanced_query_form:
  "enhanced_query i = search_query i @ '' '' @ join '' '' (QUALITY_FILTERS i)
   \<and> (QUALITY_FILTERS i = [] \<longrightarrow> enhanced_query i = search_query i @ '' '')
   \<and> (search_query i \<noteq> [] \<longrightarrow>
        take 1 (network_calls (fst (analyze_code st w i))) =
          [Requests_get (GITHUB_API_URL st) [(''q'', enhanced_query i)] (HEADERS st)])"
proof -
  have "take 1 (network_calls (fst (analyze_code st w i))) =
          [Requests_get (GITHUB_API_URL st) [(''q'', enhanced_query i)] (HEADERS st)]"
    if "search_query i \<noteq> []"
  proof -
    obtain sevs res where s: "search_github_code st w (enhanced_query i) = (sevs, res)"
      by (cases "search_github_code st w (enhanced_query i)")
    have n: "network_calls sevs =
               [Requests_get (GITHUB_API_URL st) [(''q'', enhanced_query i)] (HEADERS st)]"
      using search_request [of st w "enhanced_query i"] s by simp
    show ?thesis
      using that s n
      by (auto simp: analyze_code_def select_prompt_total Let_def network_calls_def
               split: option.split prod.split)
  qed
  then show ?thesis
    by (simp add: enhanced_query_def)
qed

text \<open>Witness for the amended C2: the query \<^verbatim>\<open>CNN\<close> with no filter.\<close>

theorem enhanced_query_form_witness:
  "QUALITY_FILTERS (plain_inputs ''CNN'') = []
   \<and> enhanced_query (plain_inputs ''CNN'') = ''CNN ''
   \<and> search_query (plain_inputs ''CNN'') \<noteq> []
   \<and> take 1 (network_calls (fst (analyze_code example_session (demo_world 200 []) (plain_inputs ''CNN'')))) =
        [Requests_get ''https://api.github.com/search/code'' [(''q'', ''CNN '')]
           [(''Accept'', ''application/vnd.github+json''), (''Authorization'', ''Bearer t0k''),
            (''X-GitHub-Api-Version'', ''2022-11-28'')]]"
  using enhanced_query_form [of "plain_inputs ''CNN''" example_session "demo_world 200 []"]
  by (simp add: plain_inputs_def QUALITY_FILTERS_def example_session_def)

subsection \<open>The raw URL\<close>

text \<open>
  Claim C3 holds for a blob URL whose only \<^verbatim>\<open>/blob\<close> is the segment after the repository
  (see \<open>raw_url_blob_url\<close>) but not for arbitrary segments: \<^verbatim>\<open>replace("/blob", "")\<close> removes
  every \<^verbatim>\<open>/blob\<close> of the URL. For a file in a directory named \<^verbatim>\<open>blob\<close> the result is not
  the raw URL of that file.
\<close>

theorem raw_url_blob_directory:
  "raw_url ''https://github.com/octo/demo/blob/main/sdk/blob/client.py''
     = ''https://raw.githubusercontent.com/octo/demo/main/sdk/client.py''
   \<and> raw_url ''https://github.com/octo/demo/blob/main/sdk/blob/client.py''
     \<noteq> ''https://raw.githubusercontent.com/octo/demo/main/sdk/blob/client.py''"
  by (simp add: raw_url_def)

subsection \<open>The snippet\<close>

text \<open>
  Claim C4. The snippet is the first 2500 characters of the body: its length is exactly 2500
  when the body is longer than 2500 characters, and it is the whole body when the body has
  2500 characters or fewer; in both cases it is a prefix of the body, cut without regard to
  lines.
\<close>

theorem code_snippet_truncation:
  "(2500 < length body \<longrightarrow> length (code_snippet body) = 2500)
   \<and> (length body \<le> 2500 \<longrightarrow> code_snippet body = body)
   \<and> length (code_snippet body) = min 2500 (length body)
   \<and> prefix (code_snippet body) body"
  by (simp add: code_snippet_def take_is_prefix)

text \<open>Witness for C4: a body of 2501 characters and a body of 3 characters.\<close>

theorem code_snippet_truncation_witness:
  "2500 < length (replicate 2501 (CHR ''x''))
   \<and> length (code_snippet (replicate 2501 (CHR ''x''))) = 2500
   \<and> length ''abc'' \<le> 2500 \<and> code_snippet ''abc'' = ''abc''"
  using code_snippet_truncation [of "replicate 2501 (CHR ''x'')"] code_snippet_truncation [of "''abc''"]
  by simp

subsection \<open>The prompt catalogue\<close>

text \<open>
  Claim C5. For the two analysis modes of the page (\<^verbatim>\<open>Documentation Generator\<close>,
  \<^verbatim>\<open>AI Code Detection\<close>) and the three complexity levels, the lookup of lines 216 to 219 returns
  the preset of that pair, none of the six presets is empty, and a complexity key that is
  none of the three gives the \<^verbatim>\<open>detailed\<close> preset of the selected analysis mode.
\<close>

theorem prompt_catalog_lookup:
  "select_prompt ''Documentation Generator'' ''basic'' =
     Inr ''Generate comprehensive documentation for this code.''
   \<and> select_prompt ''Documentation Generator'' ''detailed'' = Inr doc_detailed
   \<and> select_prompt ''Documentation Generator'' ''advanced'' = Inr doc_advanced
   \<and> select_prompt ''AI Code Detection'' ''basic'' =
     Inr ''Analyze this code for signs of AI generation.''
   \<and> select_prompt ''AI Code Detection'' ''detailed'' = Inr ai_detailed
   \<and> select_prompt ''AI Code Detection'' ''advanced'' = Inr ai_advanced
   \<and> doc_basic \<noteq> [] \<and> doc_detailed \<noteq> [] \<and> doc_advanced \<noteq> []
   \<and> ai_basic \<noteq> [] \<and> ai_detailed \<noteq> [] \<and> ai_advanced \<noteq> []
   \<and> (level \<notin> {''basic'', ''detailed'', ''advanced''} \<longrightarrow>
        select_prompt mode level = select_prompt mode ''detailed''
        \<and> select_prompt mode level =
            Inr (if mode = ''Documentation Generator'' then doc_detailed else ai_detailed))"
proof -
  have ne: "doc_basic \<noteq> [] \<and> doc_detailed \<noteq> [] \<and> doc_advanced \<noteq> []
            \<and> ai_basic \<noteq> [] \<and> ai_detailed \<noteq> [] \<and> ai_advanced \<noteq> []"
    by (simp add: doc_basic_def doc_detailed_def doc_advanced_def
          ai_basic_def ai_detailed_def ai_advanced_def)
  have lk: "select_prompt ''Documentation Generator'' ''basic'' =
      Inr ''Generate comprehensive documentation for this code.''"
    "select_prompt ''Documentation Generator'' ''detailed'' = Inr doc_detailed"
    "select_prompt ''Documentation Generator'' ''advanced'' = Inr doc_advanced"
    "select_prompt ''AI Code Detection'' ''basic'' =
      Inr ''Analyze this code for signs of AI generation.''"
    "select_prompt ''AI Code Detection'' ''detailed'' = Inr ai_detailed"
    "select_prompt ''AI Code Detection'' ''advanced'' = Inr ai_advanced"
    by (simp_all add: select_prompt_total dict_get_def DOCUMENTATION_PROMPTS_def
          AI_DETECTION_PROMPTS_def doc_basic_def ai_basic_def)
  have fb: "level \<notin> {''basic'', ''detailed'', ''advanced''} \<longrightarrow>
        select_prompt mode level = select_prompt mode ''detailed''
        \<and> select_prompt mode level =
            Inr (if mode = ''Documentation Generator'' then doc_detailed else ai_detailed)"
    by (simp add: select_prompt_total dict_get_def DOCUMENTATION_PROMPTS_def
          AI_DETECTION_PROMPTS_def)
  from ne lk fb show ?thesis
    by blast
qed

text \<open>Witness for C5: the key \<^verbatim>\<open>expert\<close> is none of the three levels.\<close>

theorem prompt_catalog_lookup_witness:
  "''expert'' \<notin> {''basic'', ''detailed'', ''advanced''}
   \<and> select_prompt ''AI Code Detection'' ''expert'' = Inr ai_detailed
   \<and> select_prompt ''Documentation Generator'' ''expert'' = Inr doc_detailed"
  using prompt_catalog_lookup [of "''expert''" "''AI Code Detection''"]
        prompt_catalog_lookup [of "''expert''" "''Documentation Generator''"]
  by simp

subsection \<open>The batch\<close>




text \<open>
  The failures that the program catches do not stop the batch. Provided the raw file server
  answers each request of the batch (with status 200 or any other status), pressing the button
  ends without an exception, the raw file of every one of the first three items is requested,
  in order, and each item has its own events in its place: an item whose fetch is answered
  with a status other than 200 shows "Failed to retrieve code content"; an item whose fetch
  succeeds is analysed, and shows the analysis, or "Failed to analyze code." when the model
  answers with nothing, or the message of the exception followed by "Failed to analyze code."
  when the invocation raises.
\<close>

lemma caught_failures_do_not_abort:
  assumes "search_query i \<noteq> []"
    and "select_prompt (analysis_mode i) (prompt_level i) = Inr prompt"
    and "search_github_code st w (enhanced_query i) = (sevs, Some body)"
    and "items body = Some its" and "total_count body = Some n"
    and "\<forall>p \<in> set (enumerate 0 (take 3 its)). fetch_answered w p"
  shows "snd (analyze_code st w i) = None
         \<and> fst (analyze_code st w i) =
             [St_write (''Enhanced Query: '' @ enhanced_query i),
              Requests_get (GITHUB_API_URL st) [(''q'', enhanced_query i)] (HEADERS st),
              St_success (''Found '' @ str_int n @ '' results'')]
             @ concat (map (item_events st w prompt) (enumerate 0 (take 3 its)))
         \<and> get_urls (fst (analyze_code st w i)) =
             GITHUB_API_URL st # map (\<lambda>it. raw_url (html_url it)) (take 3 its)
         \<and> (\<forall>(k, it) \<in> set (enumerate 0 (take 3 its)).
              \<forall>r. fetch_reply w k (raw_url (html_url it)) = Get_returns r \<longrightarrow>
                (status_code r \<noteq> 200 \<longrightarrow>
                   item_events st w prompt (k, it) =
                     [St_expander (panel_label it), Requests_get (raw_url (html_url it)) [] [],
                      St_error ''Failed to retrieve code content''])
                \<and> (status_code r = 200 \<longrightarrow>
                     take 5 (item_events st w prompt (k, it)) =
                       [St_expander (panel_label it), Requests_get (raw_url (html_url it)) [] [],
                        St_subheader (panel_label it), St_code (take 2500 (text_body r)),
                        Llm_invoke (prompt @ ''\<newline>\<newline>'' @ take 2500 (text_body r))
                          (temperature (llm st))]
                     \<and> (\<forall>c. llm_reply w k (prompt @ ''\<newline>\<newline>'' @ take 2500 (text_body r))
                               = Llm_content c \<and> c \<noteq> [] \<longrightarrow>
                            drop 5 (item_events st w prompt (k, it)) = [St_write c])
                     \<and> (llm_reply w k (prompt @ ''\<newline>\<newline>'' @ take 2500 (text_body r))
                               = Llm_content [] \<longrightarrow>
                            drop 5 (item_events st w prompt (k, it)) =
                              [St_error ''Failed to analyze code.''])
                     \<and> (\<forall>e. llm_reply w k (prompt @ ''\<newline>\<newline>'' @ take 2500 (text_body r))
                               = Llm_raises e \<longrightarrow>
                            drop 5 (item_events st w prompt (k, it)) =
                              [St_error (''OpenAI API Error: '' @ e),
                               St_error ''Failed to analyze code.''])))"
proof -
  note ac = analyze_code_found [OF assms(1) assms(2) assms(3) assms(4) assms(5)]
  note all = process_items_all [OF assms(6), of st prompt]
  have 1: "snd (analyze_code st w i) = None"
    by (simp add: ac all)
  have 2: "fst (analyze_code st w i) =
             [St_write (''Enhanced Query: '' @ enhanced_query i),
              Requests_get (GITHUB_API_URL st) [(''q'', enhanced_query i)] (HEADERS st),
              St_success (''Found '' @ str_int n @ '' results'')]
             @ concat (map (item_events st w prompt) (enumerate 0 (take 3 its)))"
    by (simp add: ac all)
  have 3: "get_urls (fst (analyze_code st w i)) =
             GITHUB_API_URL st # map (\<lambda>it. raw_url (html_url it)) (take 3 its)"
    by (simp add: ac all get_urls_item_events)
  from 1 2 3 item_events_report [of w _ _ _ st prompt] show ?thesis
    by (intro conjI) (simp, simp, simp, blast)
qed

text \<open>
  An instance: of five items found, the raw file of the second is answered with 404. The
  first and the third are fetched and analysed, the second shows the fetch error.
\<close>

lemma second_item_missing_example:
  "search_query (plain_inputs ''CNN'') \<noteq> []
   \<and> fetch_answered (demo_world 200 five_items) (0, item_of ''a.py'')
   \<and> fetch_answered (demo_world 200 five_items) (1, item_of ''b.py'')
   \<and> fetch_answered (demo_world 200 five_items) (2, item_of ''c.py'')
   \<and> snd (analyze_code example_session (demo_world 200 five_items) (plain_inputs ''CNN'')) = None
   \<and> get_urls (fst (analyze_code example_session (demo_world 200 five_items) (plain_inputs ''CNN'')))
       = [''https://api.github.com/search/code'',
          ''https://raw.githubusercontent.com/octo/demo/main/a.py'',
          ''https://raw.githubusercontent.com/octo/demo/main/b.py'',
          ''https://raw.githubusercontent.com/octo/demo/main/c.py'']
   \<and> drop 5 (item_events example_session (demo_world 200 five_items) doc_basic (0, item_of ''a.py''))
       = [St_write ''Prints 1.'']
   \<and> item_events example_session (demo_world 200 five_items) doc_basic (1, item_of ''b.py'')
       = [St_expander ''File: b.py (Repo: octo/demo)'',
          Requests_get ''https://raw.githubusercontent.com/octo/demo/main/b.py'' [] [],
          St_error ''Failed to retrieve code content'']
   \<and> drop 5 (item_events example_session (demo_world 200 five_items) doc_basic (2, item_of ''c.py''))
       = [St_write ''Prints 1.'']"
proof -
  have q: "search_query (plain_inputs ''CNN'') \<noteq> []"
    by (simp add: plain_inputs_def)
  have p: "select_prompt (analysis_mode (plain_inputs ''CNN'')) (prompt_level (plain_inputs ''CNN''))
             = Inr doc_basic"
    by (simp add: select_prompt_total plain_inputs_def dict_get_def DOCUMENTATION_PROMPTS_def)
  have s: "search_github_code example_session (demo_world 200 five_items)
              (enhanced_query (plain_inputs ''CNN'')) =
            ([Requests_get ''https://api.github.com/search/code''
                [(''q'', enhanced_query (plain_inputs ''CNN''))]
                [(''Accept'', ''application/vnd.github+json''), (''Authorization'', ''Bearer t0k''),
                 (''X-GitHub-Api-Version'', ''2022-11-28'')]],
             Some \<lparr> total_count = Some (int (length five_items)), items = Some five_items \<rparr>)"
    by (rule demo_search) simp
  have f: "\<forall>p \<in> set (enumerate 0 (take 3 five_items)). fetch_answered (demo_world 200 five_items) p"
    by (simp add: take_3_five_items fetch_answered_def demo_world_def)
  have i: "items \<lparr> total_count = Some (int (length five_items)), items = Some five_items \<rparr>
             = Some five_items"
    and t: "total_count \<lparr> total_count = Some (int (length five_items)), items = Some five_items \<rparr>
             = Some (int (length five_items))"
    by simp_all
  note c = caught_failures_do_not_abort [OF q p s i t f]
  have 1: "snd (analyze_code example_session (demo_world 200 five_items) (plain_inputs ''CNN'')) = None"
    using c by blast
  have 2: "get_urls (fst (analyze_code example_session (demo_world 200 five_items) (plain_inputs ''CNN'')))
       = [''https://api.github.com/search/code'',
          ''https://raw.githubusercontent.com/octo/demo/main/a.py'',
          ''https://raw.githubusercontent.com/octo/demo/main/b.py'',
          ''https://raw.githubusercontent.com/octo/demo/main/c.py'']"
  proof -
    from c have "get_urls (fst (analyze_code example_session (demo_world 200 five_items)
                    (plain_inputs ''CNN''))) =
             GITHUB_API_URL example_session # map (\<lambda>it. raw_url (html_url it)) (take 3 five_items)"
      by blast
    then show ?thesis
      by (simp add: take_3_five_items raw_url_item_of example_session_def)
  qed
  from c have r: "\<forall>(k, it) \<in> set (enumerate 0 (take 3 five_items)).
              \<forall>r. fetch_reply (demo_world 200 five_items) k (raw_url (html_url it)) = Get_returns r \<longrightarrow>
                (status_code r \<noteq> 200 \<longrightarrow>
                   item_events example_session (demo_world 200 five_items) doc_basic (k, it) =
                     [St_expander (panel_label it), Requests_get (raw_url (html_url it)) [] [],
                      St_error ''Failed to retrieve code content''])
                \<and> (status_code r = 200 \<longrightarrow>
                     (\<forall>c. llm_reply (demo_world 200 five_items) k
                               (doc_basic @ ''\<newline>\<newline>'' @ take 2500 (text_body r))
                               = Llm_content c \<and> c \<noteq> [] \<longrightarrow>
                            drop 5 (item_events example_session (demo_world 200 five_items) doc_basic (k, it))
                              = [St_write c]))"
    by blast
  have 3: "drop 5 (item_events example_session (demo_world 200 five_items) doc_basic (0, item_of ''a.py''))
       = [St_write ''Prints 1.'']"
    and 4: "item_events example_session (demo_world 200 five_items) doc_basic (1, item_of ''b.py'')
       = [St_expander ''File: b.py (Repo: octo/demo)'',
          Requests_get ''https://raw.githubusercontent.com/octo/demo/main/b.py'' [] [],
          St_error ''Failed to retrieve code content'']"
    and 5: "drop 5 (item_events example_session (demo_world 200 five_items) doc_basic (2, item_of ''c.py''))
       = [St_write ''Prints 1.'']"
    using r
    by (simp_all add: take_3_five_items raw_url_def demo_world_def plain_response_def
          panel_label_def item_of_def numeral_2_eq_2)
  from f have g: "fetch_answered (demo_world 200 five_items) (0, item_of ''a.py'')"
    "fetch_answered (demo_world 200 five_items) (1, item_of ''b.py'')"
    "fetch_answered (demo_world 200 five_items) (2, item_of ''c.py'')"
    by (simp_all add: take_3_five_items numeral_2_eq_2)
  from q g 1 2 3 4 5 show ?thesis by blast
qed

text \<open>
  Claim C7 says that a fetch failure of one item never aborts the batch and that no exception
  leaves the loop. The search client and the analyser catch the exceptions of their requests,
  but \<^verbatim>\<open>requests.get(raw_url)\<close> at line 237 is outside any \<^verbatim>\<open>try\<close>. When the request for the
  raw file of the second of five items fails to complete, the exception ends the run: the
  second item shows no error message and the third item is never fetched.
\<close>

theorem fetch_transport_error_aborts_batch:
  "analyze_code example_session (offline_world five_items) (plain_inputs ''CNN'') =
     ([St_write ''Enhanced Query: CNN '',
       Requests_get ''https://api.github.com/search/code'' [(''q'', ''CNN '')]
         [(''Accept'', ''application/vnd.github+json''), (''Authorization'', ''Bearer t0k''),
          (''X-GitHub-Api-Version'', ''2022-11-28'')],
       St_success ''Found 5 results'',
       St_expander ''File: a.py (Repo: octo/demo)'',
       Requests_get ''https://raw.githubusercontent.com/octo/demo/main/a.py'' [] [],
       St_subheader ''File: a.py (Repo: octo/demo)'',
       St_code ''print(1)'',
       Llm_invoke (doc_basic @ ''\<newline>\<newline>print(1)'') (7 / 10),
       St_write ''Prints 1.'',
       St_expander ''File: b.py (Repo: octo/demo)'',
       Requests_get ''https://raw.githubusercontent.com/octo/demo/main/b.py'' [] []],
      Some (RequestException ''Connection refused''))"
proof -
  have p: "process_items example_session (offline_world five_items) doc_basic 0 (take 3 five_items) =
     ([St_expander ''File: a.py (Repo: octo/demo)'',
       Requests_get ''https://raw.githubusercontent.com/octo/demo/main/a.py'' [] [],
       St_subheader ''File: a.py (Repo: octo/demo)'',
       St_code ''print(1)'',
       Llm_invoke (doc_basic @ ''\<newline>\<newline>print(1)'') (7 / 10),
       St_write ''Prints 1.'',
       St_expander ''File: b.py (Repo: octo/demo)'',
       Requests_get ''https://raw.githubusercontent.com/octo/demo/main/b.py'' [] []],
      Some (RequestException ''Connection refused''))"
    by (simp add: take_3_five_items process_item_def analyze_with_llm_def code_snippet_def
          raw_url_def item_of_def offline_world_def plain_response_def example_session_def Let_def)
  have a: "analyze_code example_session (offline_world five_items) (plain_inputs ''CNN'') =
     ([St_write (''Enhanced Query: '' @ enhanced_query (plain_inputs ''CNN'')),
       Requests_get (GITHUB_API_URL example_session)
         [(''q'', enhanced_query (plain_inputs ''CNN''))] (HEADERS example_session),
       St_success (''Found '' @ str_int (int (length five_items)) @ '' results'')]
        @ fst (process_items example_session (offline_world five_items) doc_basic 0
                 (take 3 five_items)),
      snd (process_items example_session (offline_world five_items) doc_basic 0
             (take 3 five_items)))"
    by (rule analyze_code_found [OF plain_query(1) plain_query(3) offline_search]) simp_all
  show ?thesis
    unfolding a p
    by (simp add: plain_query(2) example_session_def five_items_def str_int_def
          str_nat.simps digit_char_def)
qed

subsection \<open>The search client\<close>

text \<open>
  Claim C8 says that any status outside 200 to 299 is reported as an error and yields no
  items. The program leaves that decision to \<^verbatim>\<open>raise_for_status\<close>, which raises for the
  statuses 400 to 599 only: an answer with status 300 and a JSON body is returned to the
  caller as a result, with no error shown.
\<close>

theorem search_non_2xx_counterexample:
  "status_code (ok_response 300 five_items) \<notin> {200..<300}
   \<and> search_reply (demo_world 300 five_items) (GITHUB_API_URL example_session)
        [(''q'', ''CNN '')] (HEADERS example_session) = Get_returns (ok_response 300 five_items)
   \<and> search_github_code example_session (demo_world 300 five_items) ''CNN '' =
       ([Requests_get ''https://api.github.com/search/code'' [(''q'', ''CNN '')]
           [(''Accept'', ''application/vnd.github+json''), (''Authorization'', ''Bearer t0k''),
            (''X-GitHub-Api-Version'', ''2022-11-28'')]],
        Some \<lparr> total_count = Some 5, items = Some five_items \<rparr>)"
  by (simp add: search_github_code_def demo_world_def ok_response_def raise_for_status_def
        example_session_def five_items_def)

text \<open>
  Claim C8, amended. One call of the search client makes exactly one request, a GET of the
  configured URL with the parameter \<^verbatim>\<open>q\<close> set to the query and the three headers
  \<^verbatim>\<open>Accept\<close>, \<^verbatim>\<open>Authorization\<close> (the bearer token) and \<^verbatim>\<open>X-GitHub-Api-Version\<close>. When the
  request fails to complete, when the status is between 400 and 599, or when the body is not
  JSON, it shows "GitHub API Error: ..." and returns \<^verbatim>\<open>None\<close>, as a value and not as an
  exception. With any other status, in particular 200 to 299, and a JSON body it returns the
  parsed body and shows nothing.
\<close>

theorem search_github_code_contract:
  assumes "init env = Inr st"
    and "env ''GITHUB_API_KEY'' = Some token"
    and "env ''GITHUB_API_URL'' = Some api_url"
  shows "network_calls (fst (search_github_code st w query)) =
           [Requests_get api_url [(''q'', query)]
              [(''Accept'', ''application/vnd.github+json''),
               (''Authorization'', ''Bearer '' @ token),
               (''X-GitHub-Api-Version'', ''2022-11-28'')]]
         \<and> (\<forall>e. search_reply w (GITHUB_API_URL st) [(''q'', query)] (HEADERS st) = Get_raises e \<longrightarrow>
               snd (search_github_code st w query) = None
               \<and> St_error (''GitHub API Error: '' @ e) \<in> set (fst (search_github_code st w query)))
         \<and> (\<forall>r. search_reply w (GITHUB_API_URL st) [(''q'', query)] (HEADERS st) = Get_returns r
                 \<and> 400 \<le> status_code r \<and> status_code r < 600 \<longrightarrow>
               snd (search_github_code st w query) = None
               \<and> (\<exists>msg. St_error (''GitHub API Error: '' @ msg)
                            \<in> set (fst (search_github_code st w query))))
         \<and> (\<forall>r e. search_reply w (GITHUB_API_URL st) [(''q'', query)] (HEADERS st) = Get_returns r
                 \<and> json r = Inl e \<longrightarrow>
               snd (search_github_code st w query) = None
               \<and> (\<exists>msg. St_error (''GitHub API Error: '' @ msg)
                            \<in> set (fst (search_github_code st w query))))
         \<and> (\<forall>r body. search_reply w (GITHUB_API_URL st) [(''q'', query)] (HEADERS st) = Get_returns r
                 \<and> (status_code r < 400 \<or> 600 \<le> status_code r) \<and> json r = Inr body \<longrightarrow>
               search_github_code st w query =
                 ([Requests_get (GITHUB_API_URL st) [(''q'', query)] (HEADERS st)], Some body))"
proof -
  have h: "HEADERS st = [(''Accept'', ''application/vnd.github+json''),
               (''Authorization'', ''Bearer '' @ token),
               (''X-GitHub-Api-Version'', ''2022-11-28'')]"
    by (rule init_session(2) [OF assms(1) assms(2)])
  have u: "GITHUB_API_URL st = api_url"
    by (rule init_session(3) [OF assms(1) assms(3)])
  have 1: "network_calls (fst (search_github_code st w query)) =
           [Requests_get api_url [(''q'', query)]
              [(''Accept'', ''application/vnd.github+json''),
               (''Authorization'', ''Bearer '' @ token),
               (''X-GitHub-Api-Version'', ''2022-11-28'')]]"
    using search_request [of st w query] h u by simp
  have 2: "snd (search_github_code st w query) = None
           \<and> St_error (''GitHub API Error: '' @ e) \<in> set (fst (search_github_code st w query))"
    if "search_reply w (GITHUB_API_URL st) [(''q'', query)] (HEADERS st) = Get_raises e" for e
    using that by (simp add: search_github_code_def)
  have 3: "snd (search_github_code st w query) = None
           \<and> (\<exists>msg. St_error (''GitHub API Error: '' @ msg)
                            \<in> set (fst (search_github_code st w query)))"
    if "search_reply w (GITHUB_API_URL st) [(''q'', query)] (HEADERS st) = Get_returns r"
      and "400 \<le> status_code r" and "status_code r < 600" for r
    using that by (auto simp: search_github_code_def raise_for_status_def)
  have 4: "snd (search_github_code st w query) = None
           \<and> (\<exists>msg. St_error (''GitHub API Error: '' @ msg)
                            \<in> set (fst (search_github_code st w query)))"
    if "search_reply w (GITHUB_API_URL st) [(''q'', query)] (HEADERS st) = Get_returns r"
      and "json r = Inl e" for r e
    using that by (simp add: search_github_code_def Let_def split: option.split)
  have 5: "search_github_code st w query =
                 ([Requests_get (GITHUB_API_URL st) [(''q'', query)] (HEADERS st)], Some body)"
    if "search_reply w (GITHUB_API_URL st) [(''q'', query)] (HEADERS st) = Get_returns r"
      and "status_code r < 400 \<or> 600 \<le> status_code r" and "json r = Inr body" for r body
    using that by (auto simp: search_github_code_def raise_for_status_def)
  from 1 2 3 4 5 show ?thesis by blast
qed

text \<open>
  Witness for the amended C8: the same query answered with status 403 and with status 200.
\<close>

theorem search_github_code_contract_witness:
  "init example_env = Inr example_session
   \<and> example_env ''GITHUB_API_KEY'' = Some ''t0k''
   \<and> example_env ''GITHUB_API_URL'' = Some ''https://api.github.com/search/code''
   \<and> network_calls (fst (search_github_code example_session (demo_world 403 five_items) ''CNN '')) =
       [Requests_get ''https://api.github.com/search/code'' [(''q'', ''CNN '')]
          [(''Accept'', ''application/vnd.github+json''), (''Authorization'', ''Bearer t0k''),
           (''X-GitHub-Api-Version'', ''2022-11-28'')]]
   \<and> snd (search_github_code example_session (demo_world 403 five_items) ''CNN '') = None
   \<and> snd (search_github_code example_session (demo_world 200 five_items) ''CNN '') =
       Some \<lparr> total_count = Some 5, items = Some five_items \<rparr>"
proof -
  have k: "example_env ''GITHUB_API_KEY'' = Some ''t0k''"
    and u: "example_env ''GITHUB_API_URL'' = Some ''https://api.github.com/search/code''"
    by (simp_all add: example_env_def)
  note c403 = search_github_code_contract [OF init_example k u, of "demo_world 403 five_items" "''CNN ''"]
  note c200 = search_github_code_contract [OF init_example k u, of "demo_world 200 five_items" "''CNN ''"]
  have 1: "network_calls (fst (search_github_code example_session (demo_world 403 five_items) ''CNN '')) =
       [Requests_get ''https://api.github.com/search/code'' [(''q'', ''CNN '')]
          [(''Accept'', ''application/vnd.github+json''), (''Authorization'', ''Bearer t0k''),
           (''X-GitHub-Api-Version'', ''2022-11-28'')]]"
    using c403 by simp
  have 2: "snd (search_github_code example_session (demo_world 403 five_items) ''CNN '') = None"
    using c403 by (simp add: demo_world_def ok_response_def)
  have 3: "snd (search_github_code example_session (demo_world 200 five_items) ''CNN '') =
       Some \<lparr> total_count = Some 5, items = Some five_items \<rparr>"
    using c200 by (simp add: demo_world_def ok_response_def five_items_def)
  from init_example k u 1 2 3 show ?thesis by blast
qed

subsection \<open>The analyser\<close>

text \<open>
  Claim C9. For every prompt and snippet, one call of the analyser makes exactly one model
  invocation, whose instruction is the prompt, two newlines and the snippet, on the client
  that \<^verbatim>\<open>init\<close> configured with temperature 0.7. When the model answers, the answer is
  returned unchanged and nothing else happens; when the invocation raises, the analyser shows
  "OpenAI API Error: ..." and returns \<^verbatim>\<open>None\<close>, as a value and not as an exception.
\<close>

theorem analyze_with_llm_contract:
  assumes "init env = Inr st"
  shows "network_calls (fst (analyze_with_llm st w k snippet prompt)) =
           [Llm_invoke (prompt @ ''\<newline>\<newline>'' @ snippet) (7 / 10)]
         \<and> (\<forall>c. llm_reply w k (prompt @ ''\<newline>\<newline>'' @ snippet) = Llm_content c \<longrightarrow>
               analyze_with_llm st w k snippet prompt =
                 ([Llm_invoke (prompt @ ''\<newline>\<newline>'' @ snippet) (7 / 10)], Some c))
         \<and> (\<forall>e. llm_reply w k (prompt @ ''\<newline>\<newline>'' @ snippet) = Llm_raises e \<longrightarrow>
               analyze_with_llm st w k snippet prompt =
                 ([Llm_invoke (prompt @ ''\<newline>\<newline>'' @ snippet) (7 / 10),
                   St_error (''OpenAI API Error: '' @ e)], None))"
  using init_session(1) [OF assms]
  by (simp add: analyze_with_llm_def network_calls_def Let_def split: llm_outcome.split)

text \<open>Witness for C9: the model answers, and the invocation raises a timeout.\<close>

theorem analyze_with_llm_contract_witness:
  "init example_env = Inr example_session
   \<and> analyze_with_llm example_session (demo_world 200 []) 0 ''print(1)'' doc_basic =
       ([Llm_invoke (doc_basic @ ''\<newline>\<newline>print(1)'') (7 / 10)], Some ''Prints 1.'')
   \<and> analyze_with_llm example_session
         ((demo_world 200 [])\<lparr>llm_reply := (\<lambda>k s. Llm_raises ''timeout'')\<rparr>) 0 ''print(1)'' doc_basic =
       ([Llm_invoke (doc_basic @ ''\<newline>\<newline>print(1)'') (7 / 10),
         St_error ''OpenAI API Error: timeout''], None)"
  using analyze_with_llm_contract [OF init_example, of "demo_world 200 []" 0 "''print(1)''" doc_basic]
        analyze_with_llm_contract [OF init_example,
          of "(demo_world 200 [])\<lparr>llm_reply := (\<lambda>k s. Llm_raises ''timeout'')\<rparr>" 0 "''print(1)''" doc_basic]
  by (simp add: init_example demo_world_def)

subsection \<open>The empty query\<close>

text \<open>
  Claim C10. When the button is pressed with an empty search query, whatever the filters,
  the page shows the warning "Please enter a search query" and nothing else happens: no
  enhanced query is shown, and no search, fetch or model request is made.
\<close>

theorem empty_query_warns_and_returns:
  "search_query i = [] \<Longrightarrow>
     analyze_code st w i = ([St_warning ''Please enter a search query''], None)
     \<and> network_calls (fst (analyze_code st w i)) = []
     \<and> (\<forall>q. St_write (''Enhanced Query: '' @ q) \<notin> set (fst (analyze_code st w i)))"
  by (simp add: analyze_code_def network_calls_def)

text \<open>Witness for C10: an empty query with an extension and a repository size set.\<close>

theorem empty_query_warns_and_returns_witness:
  "search_query ((plain_inputs '''')\<lparr>file_extension := ''.py'', min_repo_size := 10\<rparr>) = []
   \<and> analyze_code example_session (demo_world 200 five_items)
        ((plain_inputs '''')\<lparr>file_extension := ''.py'', min_repo_size := 10\<rparr>)
      = ([St_warning ''Please enter a search query''], None)"
  using empty_query_warns_and_returns
          [of "(plain_inputs '''')\<lparr>file_extension := ''.py'', min_repo_size := 10\<rparr>"
              example_session "demo_world 200 five_items"]
  by (simp add: plain_inputs_def)

end
